theory Spec2Isabelle
  imports Main "HOL-Library.Word"
begin

section \<open>JavaScript strings\<close>

text \<open>
  A JavaScript string is a sequence of UTF-16 code units. \<open>js\<close> embeds an ASCII literal,
  so that \<open>js ''crlf''\<close> stands for the source literal \<^verbatim>\<open>"crlf"\<close>. Literals of the source
  with characters outside ASCII are written as their code units.
\<close>

type_synonym code_unit = "16 word"
type_synonym jsstring = "code_unit list"

definition js :: "string \<Rightarrow> jsstring" where
  "js s = map of_char s"

definition SPACE :: code_unit where "SPACE = 0x20"
definition CR :: code_unit where "CR = 0x0D"
definition LF :: code_unit where "LF = 0x0A"
definition DEL :: code_unit where "DEL = 0x7F"

text \<open>\<^verbatim>\<open>Array.prototype.join\<close> on an array of strings.\<close>

fun join :: "jsstring \<Rightarrow> jsstring list \<Rightarrow> jsstring" where
  "join sep [] = []"
| "join sep [x] = x"
| "join sep (x # y # ys) = x @ sep @ join sep (y # ys)"

text \<open>
  \<^verbatim>\<open>Array.from(str)\<close> walks the string by code points: a high surrogate followed by a
  low surrogate is one element of two code units, every other code unit is an element
  of its own.
\<close>

definition is_high_surrogate :: "code_unit \<Rightarrow> bool" where
  "is_high_surrogate c = (0xD800 \<le> c \<and> c \<le> 0xDBFF)"

definition is_low_surrogate :: "code_unit \<Rightarrow> bool" where
  "is_low_surrogate c = (0xDC00 \<le> c \<and> c \<le> 0xDFFF)"

fun array_from :: "jsstring \<Rightarrow> jsstring list" where
  "array_from [] = []"
| "array_from [c] = [[c]]"
| "array_from (c # d # cs) =
     (if is_high_surrogate c \<and> is_low_surrogate d then [c, d] # array_from cs
      else [c] # array_from (d # cs))"

text \<open>\<^verbatim>\<open>s.charCodeAt(0)\<close>: the first code unit, \<open>None\<close> for the NaN of an empty string.\<close>

definition charCodeAt0 :: "jsstring \<Rightarrow> nat option" where
  "charCodeAt0 s = (case s of [] \<Rightarrow> None | c # _ \<Rightarrow> Some (unat c))"

text \<open>\<^verbatim>\<open>Number.prototype.toString(radix)\<close> on a non-negative integer, radix 16 and 10.\<close>

definition digit_char :: "nat \<Rightarrow> code_unit" where
  "digit_char d = (if d < 10 then of_nat (48 + d) else of_nat (87 + d))"

fun hex_digits :: "nat \<Rightarrow> jsstring" where
  "hex_digits n =
     (if n < 16 then [digit_char n] else hex_digits (n div 16) @ [digit_char (n mod 16)])"

fun dec_digits :: "nat \<Rightarrow> jsstring" where
  "dec_digits n =
     (if n < 10 then [digit_char n] else dec_digits (n div 10) @ [digit_char (n mod 10)])"

declare hex_digits.simps [simp del]
declare dec_digits.simps [simp del]

definition toString16 :: "nat option \<Rightarrow> jsstring" where
  "toString16 v = (case v of None \<Rightarrow> js ''NaN'' | Some n \<Rightarrow> hex_digits n)"

text \<open>
  \<^verbatim>\<open>toUpperCase\<close> and \<^verbatim>\<open>toLowerCase\<close> on the ASCII letters; code units outside ASCII are
  left as they are. This is what JavaScript does on the hexadecimal digits and on the
  ASCII key names that the source applies them to. On search text and log entries with
  letters outside ASCII, JavaScript folds more than this model does; that bears on
  \<open>filteredLog\<close>, and so on \<open>searchIndex\<close>, only.
\<close>

definition upper_unit :: "code_unit \<Rightarrow> code_unit" where
  "upper_unit c = (if 0x61 \<le> c \<and> c \<le> 0x7A then c - 0x20 else c)"

definition lower_unit :: "code_unit \<Rightarrow> code_unit" where
  "lower_unit c = (if 0x41 \<le> c \<and> c \<le> 0x5A then c + 0x20 else c)"

definition toUpperCase :: "jsstring \<Rightarrow> jsstring" where
  "toUpperCase s = map upper_unit s"

definition toLowerCase :: "jsstring \<Rightarrow> jsstring" where
  "toLowerCase s = map lower_unit s"

text \<open>\<^verbatim>\<open>s.padStart(n, c)\<close> with a pad string of one code unit.\<close>

definition padStart :: "nat \<Rightarrow> code_unit \<Rightarrow> jsstring \<Rightarrow> jsstring" where
  "padStart n c s = (if n \<le> length s then s else replicate (n - length s) c @ s)"

text \<open>\<^verbatim>\<open>a.includes(b)\<close> on strings: \<open>b\<close> occurs in \<open>a\<close> as a contiguous run.\<close>

fun starts_with :: "jsstring \<Rightarrow> jsstring \<Rightarrow> bool" where
  "starts_with s [] = True"
| "starts_with [] (p # ps) = False"
| "starts_with (c # cs) (p # ps) = (c = p \<and> starts_with cs ps)"

fun includes_str :: "jsstring \<Rightarrow> jsstring \<Rightarrow> bool" where
  "includes_str [] p = (p = [])"
| "includes_str (c # cs) p = (starts_with (c # cs) p \<or> includes_str cs p)"

text \<open>The relational operators on strings compare code unit by code unit.\<close>

fun js_le :: "jsstring \<Rightarrow> jsstring \<Rightarrow> bool" where
  "js_le [] t = True"
| "js_le (c # cs) [] = False"
| "js_le (c # cs) (d # ds) = (c < d \<or> (c = d \<and> js_le cs ds))"

section \<open>The hexadecimal rendering of the source\<close>

text \<open>
  \<^verbatim>\<open>
  function stringToHex(str: string): string {
    return Array.from(str)
      .map((c) => c.charCodeAt(0).toString(16).toUpperCase().padStart(2, "0"))
      .join(" ");
  }
  \<close>
\<close>

definition hex_of_element :: "jsstring \<Rightarrow> jsstring" where
  "hex_of_element c = padStart 2 0x30 (toUpperCase (toString16 (charCodeAt0 c)))"

definition stringToHex :: "jsstring \<Rightarrow> jsstring" where
  "stringToHex str = join [SPACE] (map hex_of_element (array_from str))"

section \<open>Data model\<close>

record PortInfo =
  name :: jsstring
  description :: jsstring

record DataEntry =
  timestamp :: jsstring
  data :: jsstring
  hex :: jsstring
  direction :: jsstring

record SerialConfig =
  port :: jsstring
  baud_rate :: int
  custom_baud_rate :: int
  data_bits :: int
  stop_bits :: int
  parity :: jsstring
  hex_mode :: bool
  append_newline :: bool
  newline_type :: jsstring

record DisplayConfig =
  auto_scroll :: bool
  show_timestamp :: bool
  show_hex :: bool
  font_size :: int
  terminal_mode :: bool

record AppConfig =
  serial :: SerialConfig
  display :: DisplayConfig

text \<open>
  The reactive state of the component: every \<^verbatim>\<open>ref\<close> of the script and the timer handle
  \<^verbatim>\<open>pollInterval\<close> (\<open>None\<close> is \<^verbatim>\<open>null\<close>).
\<close>

record App =
  ports :: "PortInfo list"
  connected :: bool
  dataLog :: "DataEntry list"
  sendText :: jsstring
  searchText :: jsstring
  showSearch :: bool
  searchIndex :: int
  customBaudRate :: bool
  config :: AppConfig
  pollInterval :: "nat option"
  terminalBuffer :: jsstring

definition default_config :: AppConfig where
  "default_config =
     \<lparr>serial = \<lparr>port = [], baud_rate = 115200, custom_baud_rate = 0, data_bits = 8,
                stop_bits = 1, parity = js ''none'', hex_mode = False,
                append_newline = True, newline_type = js ''crlf''\<rparr>,
      display = \<lparr>auto_scroll = True, show_timestamp = True, show_hex = False,
                 font_size = 14, terminal_mode = False\<rparr>\<rparr>"

definition initial_app :: App where
  "initial_app =
     \<lparr>ports = [], connected = False, dataLog = [], sendText = [], searchText = [],
      showSearch = False, searchIndex = - 1, customBaudRate = False,
      config = default_config, pollInterval = None, terminalBuffer = []\<rparr>"

definition baudRates :: "int list" where
  "baudRates = [300, 1200, 2400, 4800, 9600, 19200, 38400, 57600, 115200, 230400, 460800, 921600]"

section \<open>The outside world\<close>

text \<open>
  The backend commands reached through \<^verbatim>\<open>invoke\<close> are not part of the component. A
  handler takes the backend's reply as an argument (\<open>Inl e\<close> is a rejected promise
  with reason \<open>e\<close>, \<open>Inr v\<close> a fulfilled one) and returns the new state together with
  the effects it had on the outside, in order.

  While a call is pending the component goes on handling events. \<open>send\<close> reads the
  state again when its call has returned, so it is modelled in its two phases, with the
  state at the call and the state at the return as separate arguments. Each of the
  other handlers is modelled as one step, as it runs when nothing else happens while
  its call is pending.
\<close>

datatype command =
    list_ports
  | connect_serial jsstring int int int jsstring
  | disconnect_serial
  | read_data
  | send_data jsstring bool
  | save_log jsstring jsstring
  | get_config
  | save_config AppConfig

datatype effect =
    Invoke command
  | Alert jsstring
  | ConsoleError jsstring jsstring
  | ScrollToBottom
  | SetInterval nat nat
  | ClearInterval nat
  | PreventDefault
  | FocusTerminalInput
  | AddKeydownListener
  | RemoveKeydownListener

type_synonym 'a reply = "jsstring + 'a"

record Date =
  toTimeString :: jsstring
  getMilliseconds :: nat
  toISOString :: jsstring

record KeyboardEvent =
  key :: jsstring
  ctrlKey :: bool

section \<open>The handlers\<close>

definition filteredLog :: "App \<Rightarrow> DataEntry list" where
  "filteredLog st =
     (if searchText st = [] then dataLog st
      else let search = toLowerCase (searchText st)
           in filter (\<lambda>entry. includes_str (toLowerCase (data entry)) search \<or>
                               includes_str (toLowerCase (hex entry)) search)
                (dataLog st))"

definition refreshPorts :: "PortInfo list reply \<Rightarrow> App \<Rightarrow> App \<times> effect list" where
  "refreshPorts r st =
     (case r of
        Inr ps \<Rightarrow> (st\<lparr>ports := ps\<rparr>, [Invoke list_ports])
      | Inl e \<Rightarrow>
          (st, [Invoke list_ports,
                ConsoleError [0x83B7, 0x53D6, 0x4E32, 0x53E3, 0x5217, 0x8868, 0x5931, 0x8D25, 0x3A] e]))"

text \<open>\<^verbatim>\<open>if (pollInterval)\<close>: \<^verbatim>\<open>null\<close> and the number 0 are falsy.\<close>

definition polling :: "App \<Rightarrow> bool" where
  "polling st = (case pollInterval st of None \<Rightarrow> False | Some t \<Rightarrow> t \<noteq> 0)"

text \<open>\<open>timer\<close> is the handle that \<^verbatim>\<open>window.setInterval\<close> returns.\<close>

definition startPolling :: "nat \<Rightarrow> App \<Rightarrow> App \<times> effect list" where
  "startPolling timer st =
     (if polling st then (st, [])
      else (st\<lparr>pollInterval := Some timer\<rparr>, [SetInterval 50 timer]))"

definition stopPolling :: "App \<Rightarrow> App \<times> effect list" where
  "stopPolling st =
     (case pollInterval st of
        None \<Rightarrow> (st, [])
      | Some t \<Rightarrow> if t \<noteq> 0 then (st\<lparr>pollInterval := None\<rparr>, [ClearInterval t]) else (st, []))"

text \<open>The body of the interval callback, one tick.\<close>

definition poll_tick :: "DataEntry list reply \<Rightarrow> App \<Rightarrow> App \<times> effect list" where
  "poll_tick r st =
     (case r of
        Inr entries \<Rightarrow>
          if length entries > 0
          then (st\<lparr>dataLog := dataLog st @ entries\<rparr>,
                Invoke read_data #
                (if auto_scroll (display (config st)) then [ScrollToBottom] else []))
          else (st, [Invoke read_data])
      | Inl e \<Rightarrow>
          (st, [Invoke read_data,
                ConsoleError [0x8BFB, 0x53D6, 0x6570, 0x636E, 0x5931, 0x8D25, 0x3A] e]))"

definition saveConfig :: "unit reply \<Rightarrow> App \<Rightarrow> App \<times> effect list" where
  "saveConfig r st =
     (case r of
        Inr _ \<Rightarrow> (st, [Invoke (save_config (config st))])
      | Inl e \<Rightarrow>
          (st, [Invoke (save_config (config st)),
                ConsoleError [0x4FDD, 0x5B58, 0x914D, 0x7F6E, 0x5931, 0x8D25, 0x3A] e]))"

definition loadConfig :: "AppConfig reply \<Rightarrow> App \<Rightarrow> App \<times> effect list" where
  "loadConfig r st =
     (case r of
        Inr cfg \<Rightarrow> (st\<lparr>config := cfg\<rparr>, [Invoke get_config])
      | Inl e \<Rightarrow>
          (st, [Invoke get_config,
                ConsoleError [0x52A0, 0x8F7D, 0x914D, 0x7F6E, 0x5931, 0x8D25, 0x3A] e]))"

definition connect_command :: "App \<Rightarrow> command" where
  "connect_command st =
     (let s = serial (config st)
      in connect_serial (port s) (baud_rate s) (data_bits s) (stop_bits s) (parity s))"

definition connect :: "unit reply \<Rightarrow> nat \<Rightarrow> unit reply \<Rightarrow> App \<Rightarrow> App \<times> effect list" where
  "connect r timer r_save st =
     (case r of
        Inr _ \<Rightarrow>
          (let (st1, fx1) = startPolling timer (st\<lparr>connected := True\<rparr>);
               (st2, fx2) = saveConfig r_save st1
           in (st2, Invoke (connect_command st) # fx1 @ fx2))
      | Inl e \<Rightarrow>
          (st, [Invoke (connect_command st),
                Alert ([0x8FDE, 0x63A5, 0x5931, 0x8D25, 0x3A, 0x20] @ e)]))"

definition disconnect :: "unit reply \<Rightarrow> App \<Rightarrow> App \<times> effect list" where
  "disconnect r st =
     (let (st1, fx1) = stopPolling st
      in case r of
           Inr _ \<Rightarrow> (st1\<lparr>connected := False\<rparr>, fx1 @ [Invoke disconnect_serial])
         | Inl e \<Rightarrow>
             (st1, fx1 @ [Invoke disconnect_serial,
                          ConsoleError [0x65AD, 0x5F00, 0x5931, 0x8D25, 0x3A] e]))"

text \<open>
  \<^verbatim>\<open>
  async function send() {
    if (!sendText.value || !connected.value) return;
    let data = sendText.value;
    if (config.value.serial.append_newline) {
      switch (config.value.serial.newline_type) {
        case "crlf": data += "\r\n"; break;
        case "lf":   data += "\n";   break;
        case "cr":   data += "\r";   break;
      }
    }
    try {
      await invoke("send_data", { data, hexMode: config.value.serial.hex_mode });
      const now = new Date();
      const timestamp = now.toTimeString().split(" ")[0] + "." +
                        now.getMilliseconds().toString().padStart(3, "0");
      dataLog.value.push({ timestamp, data: sendText.value,
        hex: config.value.serial.hex_mode ? sendText.value : stringToHex(sendText.value),
        direction: "tx" });
      if (!config.value.display.terminal_mode) { sendText.value = ""; }
      if (config.value.display.auto_scroll) { scrollToBottom(); }
    } catch (e: any) { alert("... " + e); }
  }
  \<close>
\<close>

definition newline_suffix :: "SerialConfig \<Rightarrow> jsstring" where
  "newline_suffix s =
     (if append_newline s then
        (if newline_type s = js ''crlf'' then [CR, LF]
         else if newline_type s = js ''lf'' then [LF]
         else if newline_type s = js ''cr'' then [CR]
         else [])
      else [])"

definition send_payload :: "App \<Rightarrow> jsstring" where
  "send_payload st = sendText st @ newline_suffix (serial (config st))"

text \<open>\<^verbatim>\<open>s.split(" ")[0]\<close>: the part of \<open>s\<close> before its first space.\<close>

definition before_first_space :: "jsstring \<Rightarrow> jsstring" where
  "before_first_space s = takeWhile (\<lambda>c. c \<noteq> SPACE) s"

definition timestamp_of :: "Date \<Rightarrow> jsstring" where
  "timestamp_of now =
     before_first_space (toTimeString now) @ js ''.'' @
     padStart 3 0x30 (dec_digits (getMilliseconds now))"

definition tx_entry :: "Date \<Rightarrow> App \<Rightarrow> DataEntry" where
  "tx_entry now st =
     \<lparr>timestamp = timestamp_of now,
      data = sendText st,
      hex = (if hex_mode (serial (config st)) then sendText st else stringToHex (sendText st)),
      direction = js ''tx''\<rparr>"

text \<open>
  The first phase, up to the \<^verbatim>\<open>await\<close>: the guard, and the call with the payload built
  from the state \<open>st\<close> in which \<open>send\<close> was invoked. \<open>None\<close> is the early return.
\<close>

definition send_call :: "App \<Rightarrow> command option" where
  "send_call st =
     (if sendText st = [] \<or> \<not> connected st then None
      else Some (send_data (send_payload st) (hex_mode (serial (config st)))))"

text \<open>
  The second phase, from the return of the call on. It keeps nothing of the first
  phase: the entry, the reset of the input and the scrolling are computed from the
  state \<open>st\<close> that the component is in when the call returns, and \<open>now\<close> is the clock
  at that moment.
\<close>

definition send_resume :: "unit reply \<Rightarrow> Date \<Rightarrow> App \<Rightarrow> App \<times> effect list" where
  "send_resume r now st =
     (case r of
        Inr _ \<Rightarrow>
          (let st1 = st\<lparr>dataLog := dataLog st @ [tx_entry now st]\<rparr>;
               st2 = (if \<not> terminal_mode (display (config st1))
                      then st1\<lparr>sendText := []\<rparr> else st1)
           in (st2, if auto_scroll (display (config st2)) then [ScrollToBottom] else []))
      | Inl e \<Rightarrow> (st, [Alert ([0x53D1, 0x9001, 0x5931, 0x8D25, 0x3A, 0x20] @ e)]))"

text \<open>
  The handler: invoked in state \<open>st\<close>, resumed in state \<open>st'\<close>, which is \<open>st\<close> after
  whatever the other handlers did while the call was pending. The effects are those of
  \<open>send\<close> alone.
\<close>

definition send_async :: "unit reply \<Rightarrow> Date \<Rightarrow> App \<Rightarrow> App \<Rightarrow> App \<times> effect list" where
  "send_async r now st st' =
     (case send_call st of
        None \<Rightarrow> (st, [])
      | Some call \<Rightarrow> (let (st2, fx) = send_resume r now st' in (st2, Invoke call # fx)))"

text \<open>The handler when nothing else happens while the call is pending.\<close>

definition send :: "unit reply \<Rightarrow> Date \<Rightarrow> App \<Rightarrow> App \<times> effect list" where
  "send r now st = send_async r now st st"

definition clearLog :: "App \<Rightarrow> App \<times> effect list" where
  "clearLog st = (st\<lparr>dataLog := [], terminalBuffer := []\<rparr>, [])"

text \<open>
  \<^verbatim>\<open>String.fromCharCode(n)\<close> keeps the low 16 bits of \<open>n\<close>; \<open>None\<close> is NaN, which gives
  the code unit 0.
\<close>

definition fromCharCode :: "int option \<Rightarrow> jsstring" where
  "fromCharCode v = (case v of None \<Rightarrow> [0] | Some n \<Rightarrow> [word_of_int n])"

text \<open>
  \<^verbatim>\<open>
  if (e.key === "Enter") { char = "\r"; }
  else if (e.key === "Backspace") { char = "\x7f"; }
  else if (e.key.length === 1) { char = e.key; }
  else if (e.ctrlKey && e.key.toLowerCase() >= "a" && e.key.toLowerCase() <= "z") {
    // Ctrl+A to Ctrl+Z
    char = String.fromCharCode(e.key.toLowerCase().charCodeAt(0) - 96);
  } else { return; }
  \<close>
\<close>

definition terminal_char :: "KeyboardEvent \<Rightarrow> jsstring option" where
  "terminal_char e =
     (if key e = js ''Enter'' then Some [CR]
      else if key e = js ''Backspace'' then Some [DEL]
      else if length (key e) = 1 then Some (key e)
      else if ctrlKey e \<and> js_le (js ''a'') (toLowerCase (key e))
                \<and> js_le (toLowerCase (key e)) (js ''z'')
      then Some (fromCharCode
                   (map_option (\<lambda>n. int n - 96) (charCodeAt0 (toLowerCase (key e)))))
      else None)"

definition handleTerminalInput :: "KeyboardEvent \<Rightarrow> unit reply \<Rightarrow> App \<Rightarrow> App \<times> effect list" where
  "handleTerminalInput e r st =
     (if \<not> connected st \<or> \<not> terminal_mode (display (config st)) then (st, [])
      else case terminal_char e of
             None \<Rightarrow> (st, [PreventDefault])
           | Some ch \<Rightarrow>
               (case r of
                  Inr _ \<Rightarrow>
                    (st\<lparr>terminalBuffer := terminalBuffer st @ ch\<rparr>,
                     [PreventDefault, Invoke (send_data ch False)])
                | Inl err \<Rightarrow>
                    (st, [PreventDefault, Invoke (send_data ch False),
                          ConsoleError [0x53D1, 0x9001, 0x5931, 0x8D25, 0x3A] err])))"

text \<open>
  \<open>has_input\<close>: the terminal input element is mounted; \<open>other_input\<close>: the focused
  element is an input, a textarea or a select.
\<close>

definition focusTerminal :: "bool \<Rightarrow> bool \<Rightarrow> App \<Rightarrow> App \<times> effect list" where
  "focusTerminal has_input other_input st =
     (if terminal_mode (display (config st)) \<and> has_input \<and> connected st
      then (if \<not> other_input then (st, [FocusTerminalInput]) else (st, []))
      else (st, []))"

definition log_line :: "DisplayConfig \<Rightarrow> DataEntry \<Rightarrow> jsstring" where
  "log_line d entry =
     (let dir = (if direction entry = js ''tx'' then js ''TX'' else js ''RX'');
          ts = (if show_timestamp d then js ''['' @ timestamp entry @ js ''] '' else []);
          hx = (if show_hex d then js '' | HEX: '' @ hex entry else [])
      in ts @ dir @ js '': '' @ data entry @ hx)"

definition log_filename :: "Date \<Rightarrow> jsstring" where
  "log_filename now =
     js ''serial_log_'' @
     map (\<lambda>c. if c = 0x3A \<or> c = 0x2E then 0x2D else c) (toISOString now) @
     js ''.txt''"

definition saveLog :: "Date \<Rightarrow> unit reply \<Rightarrow> App \<Rightarrow> App \<times> effect list" where
  "saveLog now r st =
     (let content = join [LF] (map (log_line (display (config st))) (dataLog st));
          filename = log_filename now
      in case r of
           Inr _ \<Rightarrow>
             (st, [Invoke (save_log filename content),
                   Alert ([0x65E5, 0x5FD7, 0x5DF2, 0x4FDD, 0x5B58, 0x3A, 0x20] @ filename)])
         | Inl e \<Rightarrow>
             (st, [Invoke (save_log filename content),
                   Alert ([0x4FDD, 0x5B58, 0x5931, 0x8D25, 0x3A, 0x20] @ e)]))"

definition handleKeydown :: "KeyboardEvent \<Rightarrow> App \<Rightarrow> App \<times> effect list" where
  "handleKeydown e st =
     (if ctrlKey e \<and> key e = js ''f''
      then (let st1 = st\<lparr>showSearch := \<not> showSearch st\<rparr>;
                st2 = (if \<not> showSearch st1 then st1\<lparr>searchText := []\<rparr> else st1)
            in (st2, [PreventDefault]))
      else (st, []))"

text \<open>The remainder operator of JavaScript on integers: the sign follows the dividend.\<close>

definition js_rem :: "int \<Rightarrow> int \<Rightarrow> int" where
  "js_rem a b = sgn a * (\<bar>a\<bar> mod \<bar>b\<bar>)"

definition findNext :: "App \<Rightarrow> App \<times> effect list" where
  "findNext st =
     (if searchText st = [] \<or> length (filteredLog st) = 0 then (st, [])
      else (st\<lparr>searchIndex := js_rem (searchIndex st + 1) (int (length (filteredLog st)))\<rparr>, []))"

definition findPrev :: "App \<Rightarrow> App \<times> effect list" where
  "findPrev st =
     (if searchText st = [] \<or> length (filteredLog st) = 0 then (st, [])
      else (st\<lparr>searchIndex := (if searchIndex st \<le> 0 then int (length (filteredLog st)) - 1
                                 else searchIndex st - 1)\<rparr>, []))"

text \<open>
  The two inline handlers of the baud-rate controls. \<open>v\<close> is the \<^verbatim>\<open>parseInt\<close> of the
  control's value: an integer for the select, whose options are all integers, and
  possibly NaN (\<open>None\<close>) for the free text input.
\<close>

definition baudSelectChange :: "int \<Rightarrow> App \<Rightarrow> App \<times> effect list" where
  "baudSelectChange v st =
     (if v = - 1
      then (let st1 = st\<lparr>customBaudRate := True\<rparr>;
                s = serial (config st1)
            in if custom_baud_rate s > 0
               then (st1\<lparr>config := (config st1)\<lparr>serial := s\<lparr>baud_rate := custom_baud_rate s\<rparr>\<rparr>\<rparr>, [])
               else (st1, []))
      else (st\<lparr>config := (config st)\<lparr>serial := (serial (config st))\<lparr>baud_rate := v\<rparr>\<rparr>,
               customBaudRate := False\<rparr>, []))"

definition customBaudInput :: "int option \<Rightarrow> App \<Rightarrow> App \<times> effect list" where
  "customBaudInput v st =
     (case v of
        None \<Rightarrow> (st, [])
      | Some n \<Rightarrow>
          if n > 0
          then (st\<lparr>config := (config st)\<lparr>serial :=
                      (serial (config st))\<lparr>baud_rate := n, custom_baud_rate := n\<rparr>\<rparr>\<rparr>, [])
          else (st, []))"

definition onMounted :: "AppConfig reply \<Rightarrow> PortInfo list reply \<Rightarrow> App \<Rightarrow> App \<times> effect list" where
  "onMounted r_cfg r_ports st =
     (let (st1, fx1) = loadConfig r_cfg st;
          (st2, fx2) = refreshPorts r_ports st1
      in (st2, fx1 @ fx2 @ [AddKeydownListener]))"

definition onUnmounted :: "App \<Rightarrow> App \<times> effect list" where
  "onUnmounted st = (let (st1, fx1) = stopPolling st in (st1, fx1 @ [RemoveKeydownListener]))"

section \<open>Everything that can happen to the component\<close>

text \<open>
  One constructor for each handler of the script and each binding of the template that
  writes state: the \<^verbatim>\<open>v-model\<close> bindings on \<^verbatim>\<open>sendText\<close>, \<^verbatim>\<open>searchText\<close> and the fields of
  \<^verbatim>\<open>config\<close> (\<open>SetConfig\<close> carries the configuration after the write), and the buttons
  that hide the search bar. The watcher on \<^verbatim>\<open>config\<close> calls \<^verbatim>\<open>saveConfig\<close>, the one on
  \<^verbatim>\<open>terminal_mode\<close> calls \<^verbatim>\<open>focusTerminal\<close>; both are actions of their own here.
  \<open>Send\<close> is a send with nothing in between its phases; a send during which other
  handlers run is \<open>SendBegin\<close>, their actions, and then \<open>SendResume\<close>.
\<close>

datatype action =
    RefreshPorts "PortInfo list reply"
  | Connect "unit reply" nat "unit reply"
  | Disconnect "unit reply"
  | PollTick "DataEntry list reply"
  | Send "unit reply" Date
  | SendBegin
  | SendResume "unit reply" Date
  | ClearLog
  | TerminalInput KeyboardEvent "unit reply"
  | FocusTerminal bool bool
  | SaveLog Date "unit reply"
  | LoadConfig "AppConfig reply"
  | SaveConfig "unit reply"
  | Keydown KeyboardEvent
  | FindNext
  | FindPrev
  | BaudSelectChange int
  | CustomBaudInput "int option"
  | Mounted "AppConfig reply" "PortInfo list reply"
  | Unmounted
  | SetSendText jsstring
  | SetSearchText jsstring
  | SetConfig AppConfig
  | HideSearch

fun step :: "action \<Rightarrow> App \<Rightarrow> App \<times> effect list" where
  "step (RefreshPorts r) st = refreshPorts r st"
| "step (Connect r t r_save) st = connect r t r_save st"
| "step (Disconnect r) st = disconnect r st"
| "step (PollTick r) st = poll_tick r st"
| "step (Send r now) st = send r now st"
| "step SendBegin st = (st, map Invoke (case send_call st of None \<Rightarrow> [] | Some call \<Rightarrow> [call]))"
| "step (SendResume r now) st = send_resume r now st"
| "step ClearLog st = clearLog st"
| "step (TerminalInput e r) st = handleTerminalInput e r st"
| "step (FocusTerminal has_input other_input) st = focusTerminal has_input other_input st"
| "step (SaveLog now r) st = saveLog now r st"
| "step (LoadConfig r) st = loadConfig r st"
| "step (SaveConfig r) st = saveConfig r st"
| "step (Keydown e) st = handleKeydown e st"
| "step FindNext st = findNext st"
| "step FindPrev st = findPrev st"
| "step (BaudSelectChange v) st = baudSelectChange v st"
| "step (CustomBaudInput v) st = customBaudInput v st"
| "step (Mounted r_cfg r_ports) st = onMounted r_cfg r_ports st"
| "step Unmounted st = onUnmounted st"
| "step (SetSendText s) st = (st\<lparr>sendText := s\<rparr>, [])"
| "step (SetSearchText s) st = (st\<lparr>searchText := s\<rparr>, [])"
| "step (SetConfig cfg) st = (st\<lparr>config := cfg\<rparr>, [])"
| "step HideSearch st = (st\<lparr>showSearch := False\<rparr>, [])"

fun run :: "action list \<Rightarrow> App \<Rightarrow> App" where
  "run [] st = st"
| "run (a # as) st = run as (fst (step a st))"

section \<open>Decoding hexadecimal text\<close>

text \<open>
  Modelled from the spec: the hex-mode decoder of the backend command \<^verbatim>\<open>send_data\<close>,
  which is not part of the component. The payload is split on whitespace and every
  token stands for one byte; a token that is not hexadecimal, in either case, makes the
  payload invalid (\<open>None\<close>). The spec reads a token of a single digit in two ways: its
  section 4.3 admits one or two digits, its section 8 and its glossary want pairs.
  \<open>single_ok\<close> selects the reading.
\<close>

definition is_whitespace :: "code_unit \<Rightarrow> bool" where
  "is_whitespace c = (c = 0x20 \<or> c = 0x09 \<or> c = 0x0A \<or> c = 0x0B \<or> c = 0x0C \<or> c = 0x0D)"

fun split_whitespace_from :: "jsstring \<Rightarrow> jsstring \<Rightarrow> jsstring list" where
  "split_whitespace_from cur [] = (if cur = [] then [] else [cur])"
| "split_whitespace_from cur (c # cs) =
     (if is_whitespace c
      then (if cur = [] then [] else [cur]) @ split_whitespace_from [] cs
      else split_whitespace_from (cur @ [c]) cs)"

definition split_whitespace :: "jsstring \<Rightarrow> jsstring list" where
  "split_whitespace s = split_whitespace_from [] s"

definition hex_value :: "code_unit \<Rightarrow> nat option" where
  "hex_value c =
     (if 0x30 \<le> c \<and> c \<le> 0x39 then Some (unat c - 48)
      else if 0x41 \<le> c \<and> c \<le> 0x46 then Some (unat c - 55)
      else if 0x61 \<le> c \<and> c \<le> 0x66 then Some (unat c - 87)
      else None)"

fun hex_token :: "bool \<Rightarrow> jsstring \<Rightarrow> nat option" where
  "hex_token single_ok [a] = (if single_ok then hex_value a else None)"
| "hex_token single_ok [a, b] =
     (case (hex_value a, hex_value b) of
        (Some x, Some y) \<Rightarrow> Some (16 * x + y)
      | _ \<Rightarrow> None)"
| "hex_token single_ok _ = None"

definition hex_decode :: "bool \<Rightarrow> jsstring \<Rightarrow> nat list option" where
  "hex_decode single_ok s = those (map (hex_token single_ok) (split_whitespace s))"

text \<open>The digits that the canonical rendering uses: 0 to 9 and A to F.\<close>

definition is_upper_hex :: "code_unit \<Rightarrow> bool" where
  "is_upper_hex c = ((0x30 \<le> c \<and> c \<le> 0x39) \<or> (0x41 \<le> c \<and> c \<le> 0x46))"

section \<open>Auxiliary notions for the statements\<close>

text \<open>The two digits that render one byte: high nibble, then low nibble.\<close>

definition hex_pair :: "code_unit \<Rightarrow> jsstring" where
  "hex_pair c = [upper_unit (digit_char (unat c div 16)), upper_unit (digit_char (unat c mod 16))]"

text \<open>The payloads handed to \<^verbatim>\<open>send_data\<close>, with their mode flag, in the order of the calls.\<close>

fun sent_payloads :: "effect list \<Rightarrow> (jsstring \<times> bool) list" where
  "sent_payloads [] = []"
| "sent_payloads (Invoke (send_data d h) # fx) = (d, h) # sent_payloads fx"
| "sent_payloads (_ # fx) = sent_payloads fx"

text \<open>Concrete values for the instances below.\<close>

definition example_date :: Date where
  "example_date =
     \<lparr>toTimeString = js ''12:34:56 GMT+0800 (CST)'', getMilliseconds = 7,
      toISOString = js ''2024-01-01T04:34:56.007Z''\<rparr>"

definition com3 :: PortInfo where
  "com3 = \<lparr>name = js ''COM3'', description = js ''USB Serial''\<rparr>"

definition rx_ok :: DataEntry where
  "rx_ok = \<lparr>timestamp = js ''12:34:56.001'', data = js ''ok'', hex = js ''6F 6B'',
            direction = js ''rx''\<rparr>"

definition hex_config :: AppConfig where
  "hex_config = default_config\<lparr>serial := (serial default_config)\<lparr>hex_mode := True\<rparr>\<rparr>"

definition plain_config :: AppConfig where
  "plain_config = default_config\<lparr>serial := (serial default_config)\<lparr>append_newline := False\<rparr>\<rparr>"

definition terminal_config :: AppConfig where
  "terminal_config = default_config\<lparr>display := (display default_config)\<lparr>terminal_mode := True\<rparr>\<rparr>"

definition text_example :: App where
  "text_example = initial_app\<lparr>connected := True, sendText := js ''A''\<rparr>"

definition plain_example :: App where
  "plain_example = initial_app\<lparr>connected := True, sendText := js ''A'', config := plain_config\<rparr>"

definition hello_example :: App where
  "hello_example =
     initial_app\<lparr>connected := True, sendText := js ''48 65 6C 6C 6F'', config := hex_config\<rparr>"

definition lower_hex_example :: App where
  "lower_hex_example =
     initial_app\<lparr>connected := True, sendText := js ''0a'', config := hex_config\<rparr>"

definition odd_hex_example :: App where
  "odd_hex_example =
     initial_app\<lparr>connected := True, sendText := js ''AB CD E'', config := hex_config\<rparr>"

definition hello_polled :: App where
  "hello_polled = hello_example\<lparr>dataLog := [rx_ok]\<rparr>"

definition edited_example :: App where
  "edited_example = text_example\<lparr>sendText := js ''B''\<rparr>"

definition terminal_example :: App where
  "terminal_example = initial_app\<lparr>connected := True, config := terminal_config\<rparr>"

section \<open>The rendering of bytes\<close>


lemma nat_lt_16_cases:
  "(d::nat) < 16 \<Longrightarrow> d = 0 \<or> d = 1 \<or> d = 2 \<or> d = 3 \<or> d = 4 \<or> d = 5 \<or> d = 6 \<or> d = 7 \<or>
     d = 8 \<or> d = 9 \<or> d = 10 \<or> d = 11 \<or> d = 12 \<or> d = 13 \<or> d = 14 \<or> d = 15"
  by arith

lemma upper_digit_props:
  assumes "d < 16"
  shows "hex_value (upper_unit (digit_char d)) = Some d"
    and "is_upper_hex (upper_unit (digit_char d))"
    and "\<not> is_whitespace (upper_unit (digit_char d))"
    and "upper_unit (digit_char d) \<noteq> SPACE"
  using nat_lt_16_cases [OF assms]
  by (elim disjE; simp add: hex_value_def upper_unit_def digit_char_def is_upper_hex_def
      is_whitespace_def SPACE_def)+

lemma byte_not_surrogate: "c \<le> 0xFF \<Longrightarrow> \<not> is_high_surrogate (c :: code_unit)"
  by (simp add: is_high_surrogate_def word_le_nat_alt)

lemma array_from_bytes:
  "\<forall>c\<in>set b. c \<le> 0xFF \<Longrightarrow> array_from b = map (\<lambda>c. [c]) b"
  by (induction b rule: array_from.induct) (simp_all add: byte_not_surrogate)

lemma hex_of_element_byte:
  assumes "(c :: code_unit) \<le> 0xFF"
  shows "hex_of_element [c] =
         [upper_unit (digit_char (unat c div 16)), upper_unit (digit_char (unat c mod 16))]"
proof -
  from assms have n: "unat c < 256" by (simp add: word_le_nat_alt)
  show ?thesis
  proof (cases "unat c < 16")
    case True
    then show ?thesis
      by (simp add: hex_of_element_def charCodeAt0_def toString16_def hex_digits.simps
          toUpperCase_def padStart_def upper_unit_def digit_char_def)
  next
    case False
    with n have "unat c div 16 < 16" by simp
    with False show ?thesis
      by (simp add: hex_of_element_def charCodeAt0_def toString16_def
          hex_digits.simps [of "unat c"] hex_digits.simps [of "unat c div 16"]
          toUpperCase_def padStart_def)
  qed
qed



lemma join_Cons: "join sep (x # xs) = (if xs = [] then x else x @ sep @ join sep xs)"
  by (cases xs) simp_all

lemma stringToHex_bytes:
  assumes "\<forall>c\<in>set b. c \<le> 0xFF"
  shows "stringToHex b = join [SPACE] (map hex_pair b)"
proof -
  have h: "map hex_of_element (array_from b) = map hex_pair b"
    using assms by (simp add: array_from_bytes hex_of_element_byte hex_pair_def)
  show ?thesis
    unfolding stringToHex_def h ..
qed

lemma split_whitespace_from_token:
  "\<forall>c\<in>set t. \<not> is_whitespace c \<Longrightarrow>
   split_whitespace_from cur (t @ rest) = split_whitespace_from (cur @ t) rest"
  by (induction t arbitrary: cur) simp_all

lemma split_whitespace_from_join:
  assumes "\<forall>t\<in>set ts. t \<noteq> [] \<and> (\<forall>c\<in>set t. \<not> is_whitespace c)"
  shows "split_whitespace_from [] (join [SPACE] ts) = ts"
  using assms
proof (induction ts)
  case Nil
  then show ?case by simp
next
  case (Cons x ts)
  then have x: "x \<noteq> []" "\<forall>c\<in>set x. \<not> is_whitespace c" by simp_all
  show ?case
  proof (cases "ts = []")
    case True
    have "split_whitespace_from [] (x @ []) = split_whitespace_from ([] @ x) []"
      using x(2) by (rule split_whitespace_from_token)
    with True x(1) show ?thesis by simp
  next
    case False
    have "split_whitespace_from [] (x @ SPACE # join [SPACE] ts)
          = split_whitespace_from ([] @ x) (SPACE # join [SPACE] ts)"
      using x(2) by (rule split_whitespace_from_token)
    also have "\<dots> = x # split_whitespace_from [] (join [SPACE] ts)"
      using x(1) by (simp add: is_whitespace_def SPACE_def)
    finally show ?thesis using Cons False by (simp add: join_Cons)
  qed
qed

lemma hex_pair_token: "c \<le> 0xFF \<Longrightarrow> hex_token single_ok (hex_pair c) = Some (unat c)"
proof -
  assume "c \<le> 0xFF"
  then have "unat c < 256" by (simp add: word_le_nat_alt)
  then have "unat c div 16 < 16" "unat c mod 16 < 16" by simp_all
  then show ?thesis by (simp add: hex_pair_def upper_digit_props)
qed

lemma hex_pair_no_whitespace:
  assumes "c \<le> 0xFF"
  shows "hex_pair c \<noteq> [] \<and> (\<forall>u\<in>set (hex_pair c). \<not> is_whitespace u)"
proof -
  from assms have "unat c < 256" by (simp add: word_le_nat_alt)
  then have "unat c div 16 < 16" "unat c mod 16 < 16" by simp_all
  then show ?thesis by (simp add: hex_pair_def upper_digit_props)
qed

lemma those_hex_pairs:
  "\<forall>c\<in>set b. c \<le> 0xFF \<Longrightarrow> those (map (hex_token single_ok) (map hex_pair b)) = Some (map unat b)"
  by (induction b) (simp_all add: hex_pair_token)

lemma hex_decode_stringToHex:
  assumes "\<forall>c\<in>set b. c \<le> 0xFF"
  shows "hex_decode single_ok (stringToHex b) = Some (map unat b)"
proof -
  have "\<forall>t\<in>set (map hex_pair b). t \<noteq> [] \<and> (\<forall>u\<in>set t. \<not> is_whitespace u)"
    using assms hex_pair_no_whitespace by auto
  then have "split_whitespace_from [] (join [SPACE] (map hex_pair b)) = map hex_pair b"
    by (rule split_whitespace_from_join)
  then have "split_whitespace (stringToHex b) = map hex_pair b"
    using assms by (simp add: split_whitespace_def stringToHex_bytes)
  then show ?thesis
    unfolding hex_decode_def using those_hex_pairs [OF assms] by (simp only:)
qed

lemma length_join_pairs:
  "\<forall>t\<in>set ts. length t = 2 \<Longrightarrow> length (join [SPACE] ts) = 2 * length ts + (length ts - 1)"
  by (induction ts) (auto simp: join_Cons)

lemma filter_join_pairs:
  "\<forall>t\<in>set ts. length t = 2 \<and> (\<forall>u\<in>set t. is_upper_hex u) \<Longrightarrow>
   length (filter is_upper_hex (join [SPACE] ts)) = 2 * length ts \<and>
   length (filter (\<lambda>u. u = SPACE) (join [SPACE] ts)) = length ts - 1"
proof (induction ts)
  case Nil
  then show ?case by simp
next
  case (Cons t ts)
  then have t: "length t = 2" "\<forall>u\<in>set t. is_upper_hex u" by simp_all
  then have a: "filter is_upper_hex t = t" by simp
  have "\<forall>u\<in>set t. u \<noteq> SPACE"
    using t(2) by (auto simp: is_upper_hex_def SPACE_def)
  then have b: "filter (\<lambda>u. u = SPACE) t = []" by simp
  have c: "\<not> is_upper_hex SPACE" by (simp add: is_upper_hex_def SPACE_def)
  from Cons t a b c show ?case
    by (cases "ts = []") (auto simp: join_Cons)
qed

lemma nth_join_pairs:
  "\<forall>t\<in>set ts. length t = 2 \<and> (\<forall>u\<in>set t. is_upper_hex u) \<Longrightarrow>
   i < length (join [SPACE] ts) \<Longrightarrow>
   (if i mod 3 = 2 then join [SPACE] ts ! i = SPACE else is_upper_hex (join [SPACE] ts ! i))"
proof (induction ts arbitrary: i)
  case Nil
  then show ?case by simp
next
  case (Cons t ts)
  then obtain x y where t: "t = [x, y]" "is_upper_hex x" "is_upper_hex y"
    by (cases t; cases "tl t") auto
  show ?case
  proof (cases "ts = []")
    case True
    with Cons.prems t show ?thesis by (auto simp: less_Suc_eq numeral_2_eq_2)
  next
    case False
    then have j: "join [SPACE] (t # ts) = x # y # SPACE # join [SPACE] ts"
      by (simp add: join_Cons t)
    show ?thesis
    proof (cases "i < 3")
      case True
      then have "i = 0 \<or> i = 1 \<or> i = 2" by arith
      with t show ?thesis unfolding j by auto
    next
      case False
      then obtain k where k: "i = k + 3" by (metis add.commute le_Suc_ex not_less)
      with Cons.prems have "k < length (join [SPACE] ts)" unfolding j by simp
      with Cons have "(if k mod 3 = 2 then join [SPACE] ts ! k = SPACE
                       else is_upper_hex (join [SPACE] ts ! k))" by simp
      moreover have "(k + 3) mod 3 = k mod 3" by simp
      moreover have "(x # y # SPACE # join [SPACE] ts) ! (k + 3) = join [SPACE] ts ! k"
        by (simp add: numeral_3_eq_3)
      ultimately show ?thesis unfolding j k by simp
    qed
  qed
qed

lemma hex_pair_shape:
  assumes "c \<le> 0xFF"
  shows "length (hex_pair c) = 2 \<and> (\<forall>u\<in>set (hex_pair c). is_upper_hex u)"
proof -
  from assms have "unat c < 256" by (simp add: word_le_nat_alt)
  then have "unat c div 16 < 16" "unat c mod 16 < 16" by simp_all
  then show ?thesis by (simp add: hex_pair_def upper_digit_props)
qed

section \<open>What each handler does to the data log\<close>

lemma dataLog_startPolling [simp]: "dataLog (fst (startPolling t st)) = dataLog st"
  by (simp add: startPolling_def)

lemma dataLog_stopPolling [simp]: "dataLog (fst (stopPolling st)) = dataLog st"
  by (simp add: stopPolling_def split: option.splits)

lemma dataLog_saveConfig [simp]: "dataLog (fst (saveConfig r st)) = dataLog st"
  by (simp add: saveConfig_def split: sum.splits)

lemma dataLog_loadConfig [simp]: "dataLog (fst (loadConfig r st)) = dataLog st"
  by (simp add: loadConfig_def split: sum.splits)

lemma dataLog_refreshPorts [simp]: "dataLog (fst (refreshPorts r st)) = dataLog st"
  by (simp add: refreshPorts_def split: sum.splits)

lemma dataLog_connect [simp]: "dataLog (fst (connect r t r_save st)) = dataLog st"
  by (simp add: connect_def split_def Let_def split: sum.splits)

lemma dataLog_disconnect [simp]: "dataLog (fst (disconnect r st)) = dataLog st"
  by (simp add: disconnect_def split_def Let_def split: sum.splits)

lemma dataLog_poll_tick:
  "dataLog (fst (poll_tick r st)) = dataLog st @ (case r of Inl e \<Rightarrow> [] | Inr entries \<Rightarrow> entries)"
  by (simp add: poll_tick_def split: sum.splits)

lemma send_async_phases:
  "send_async r now st st' =
     (if sendText st = [] \<or> \<not> connected st then (st, [])
      else (fst (send_resume r now st'),
            Invoke (send_data (send_payload st) (hex_mode (serial (config st)))) #
            snd (send_resume r now st')))"
  by (simp add: send_async_def send_call_def split_def Let_def)

lemma dataLog_send_resume:
  "dataLog (fst (send_resume r now st)) =
     dataLog st @ (case r of Inl e \<Rightarrow> [] | Inr u \<Rightarrow> [tx_entry now st])"
  by (simp add: send_resume_def Let_def split: sum.splits)

lemma dataLog_send_async:
  "dataLog (fst (send_async r now st st')) = dataLog st \<or>
   dataLog (fst (send_async r now st st')) =
     dataLog st' @ (case r of Inl e \<Rightarrow> [] | Inr u \<Rightarrow> [tx_entry now st'])"
  by (simp add: send_async_phases dataLog_send_resume)

lemma dataLog_send:
  "\<exists>es. dataLog (fst (send r now st)) = dataLog st @ es"
  using dataLog_send_async [of r now st st] by (auto simp: send_def)

lemma dataLog_handleTerminalInput [simp]:
  "dataLog (fst (handleTerminalInput e r st)) = dataLog st"
  by (simp add: handleTerminalInput_def split: sum.splits option.splits)

lemma dataLog_focusTerminal [simp]: "dataLog (fst (focusTerminal a b st)) = dataLog st"
  by (simp add: focusTerminal_def)

lemma dataLog_saveLog [simp]: "dataLog (fst (saveLog now r st)) = dataLog st"
  by (simp add: saveLog_def Let_def split: sum.splits)

lemma dataLog_handleKeydown [simp]: "dataLog (fst (handleKeydown e st)) = dataLog st"
  by (simp add: handleKeydown_def Let_def)

lemma dataLog_findNext [simp]: "dataLog (fst (findNext st)) = dataLog st"
  by (simp add: findNext_def)

lemma dataLog_findPrev [simp]: "dataLog (fst (findPrev st)) = dataLog st"
  by (simp add: findPrev_def)

lemma dataLog_baudSelectChange [simp]: "dataLog (fst (baudSelectChange v st)) = dataLog st"
  by (simp add: baudSelectChange_def Let_def)

lemma dataLog_customBaudInput [simp]: "dataLog (fst (customBaudInput v st)) = dataLog st"
  by (simp add: customBaudInput_def split: option.splits)

lemma dataLog_onMounted [simp]: "dataLog (fst (onMounted r1 r2 st)) = dataLog st"
  by (simp add: onMounted_def split_def Let_def)

lemma dataLog_onUnmounted [simp]: "dataLog (fst (onUnmounted st)) = dataLog st"
  by (simp add: onUnmounted_def split_def Let_def)

lemma step_extends_dataLog:
  "a \<noteq> ClearLog \<Longrightarrow> \<exists>es. dataLog (fst (step a st)) = dataLog st @ es"
proof (cases a)
  case (PollTick r)
  then show ?thesis by (simp add: dataLog_poll_tick)
next
  case (Send r now)
  then show ?thesis using dataLog_send [of r now st] by simp
next
  case (SendResume r now)
  then show ?thesis by (simp add: dataLog_send_resume)
qed simp_all

lemma run_extends_dataLog:
  "ClearLog \<notin> set as \<Longrightarrow> \<exists>es. dataLog (run as st) = dataLog st @ es"
proof (induction as arbitrary: st)
  case Nil
  then show ?case by simp
next
  case (Cons a as)
  then have "a \<noteq> ClearLog" and rest: "ClearLog \<notin> set as" by auto
  then obtain es where es: "dataLog (fst (step a st)) = dataLog st @ es"
    using step_extends_dataLog by blast
  from Cons.IH [OF rest] obtain es' where
    "dataLog (run as (fst (step a st))) = dataLog (fst (step a st)) @ es'" by blast
  with es show ?case by simp
qed

lemma sent_payloads_send_resume: "sent_payloads (snd (send_resume r now st)) = []"
  by (simp add: send_resume_def Let_def split: sum.splits)

lemma sent_payloads_send_async:
  "connected st \<Longrightarrow> sendText st \<noteq> [] \<Longrightarrow>
   sent_payloads (snd (send_async r now st st')) =
     [(send_payload st, hex_mode (serial (config st)))]"
  by (simp add: send_async_phases sent_payloads_send_resume)

lemma sent_payloads_send:
  "connected st \<Longrightarrow> sendText st \<noteq> [] \<Longrightarrow>
   sent_payloads (snd (send r now st)) = [(send_payload st, hex_mode (serial (config st)))]"
  by (simp add: send_def sent_payloads_send_async)

lemma stringToHex_shape:
  assumes "\<forall>c\<in>set b. c \<le> 0xFF"
  shows "length (filter is_upper_hex (stringToHex b)) = 2 * length b"
    and "length (filter (\<lambda>u. u = SPACE) (stringToHex b)) = length b - 1"
    and "length (stringToHex b) = 2 * length b + (length b - 1)"
    and "\<forall>i < length (stringToHex b).
           if i mod 3 = 2 then stringToHex b ! i = SPACE else is_upper_hex (stringToHex b ! i)"
proof -
  have s: "stringToHex b = join [SPACE] (map hex_pair b)"
    using assms by (rule stringToHex_bytes)
  have p: "\<forall>t\<in>set (map hex_pair b). length t = 2 \<and> (\<forall>u\<in>set t. is_upper_hex u)"
    using assms hex_pair_shape by auto
  then have q: "\<forall>t\<in>set (map hex_pair b). length t = 2" by blast
  show "length (filter is_upper_hex (stringToHex b)) = 2 * length b"
    and "length (filter (\<lambda>u. u = SPACE) (stringToHex b)) = length b - 1"
    using filter_join_pairs [OF p] unfolding s by simp_all
  show "length (stringToHex b) = 2 * length b + (length b - 1)"
    using length_join_pairs [OF q] unfolding s by simp
  show "\<forall>i < length (stringToHex b).
           if i mod 3 = 2 then stringToHex b ! i = SPACE else is_upper_hex (stringToHex b ! i)"
    unfolding s using nth_join_pairs [OF p] by blast
qed

text \<open>
  A successful send appends the entry built from the state at the return of the call,
  after whatever the log holds then.
\<close>

lemma send_async_success:
  assumes "connected st" and "sendText st \<noteq> []"
  shows "dataLog (fst (send_async (Inr ()) now st st')) = dataLog st' @ [tx_entry now st']"
  using assms by (simp add: send_async_phases dataLog_send_resume)

text \<open>
  An edit of the input while the call is pending shows in the entry: the payload is
  \<^verbatim>\<open>"A\r\n"\<close>, from the input at the call, and the entry is that of \<^verbatim>\<open>"B"\<close>, the input at
  the return.
\<close>

lemma send_async_reads_input_at_return:
  "sent_payloads (snd (send_async (Inr ()) example_date text_example edited_example))
     = [([0x41, 0x0D, 0x0A], False)] \<and>
   map data (dataLog (fst (send_async (Inr ()) example_date text_example edited_example)))
     = [js ''B''] \<and>
   map hex (dataLog (fst (send_async (Inr ()) example_date text_example edited_example)))
     = [js ''42'']"
  by (simp add: send_async_phases send_resume_def text_example_def edited_example_def
      initial_app_def default_config_def send_payload_def newline_suffix_def js_def
      CR_def LF_def tx_entry_def stringToHex_def hex_of_element_def padStart_def
      toUpperCase_def toString16_def charCodeAt0_def hex_digits.simps digit_char_def
      upper_unit_def)

section \<open>The claims\<close>

text \<open>
  C1, as amended. Let \<open>send\<close> be invoked in state \<open>st\<close>, connected and with a non-empty
  input, let the call succeed, and let \<open>st'\<close> be the state when it returns. Then exactly
  one entry is appended to the data log as it is in \<open>st'\<close>, with direction \<open>tx\<close>, and the
  payload handed over was the input text followed by the configured newline. When the
  input text and the hex-mode setting have not changed while the call was pending, the
  entry's data field is the input text and its hex field is the input text itself in
  hex mode and \<open>stringToHex\<close> of the input text in text mode; neither has the newline
  of the payload. In text mode with all code units in 0..255 that hex field is
  canonical: two uppercase digits for each byte of the input text, single spaces
  between the pairs and nowhere else, and it decodes to those bytes.
\<close>

theorem send_tx_entry:
  assumes "connected st" and "sendText st \<noteq> []"
  shows "\<exists>entry.
           dataLog (fst (send_async (Inr ()) now st st')) = dataLog st' @ [entry] \<and>
           direction entry = js ''tx'' \<and>
           sent_payloads (snd (send_async (Inr ()) now st st')) =
             [(sendText st @ newline_suffix (serial (config st)), hex_mode (serial (config st)))] \<and>
           (sendText st' = sendText st \<and>
            hex_mode (serial (config st')) = hex_mode (serial (config st)) \<longrightarrow>
              data entry = sendText st \<and>
              hex entry = (if hex_mode (serial (config st)) then sendText st
                           else stringToHex (sendText st)) \<and>
              (\<not> hex_mode (serial (config st)) \<and> (\<forall>c\<in>set (sendText st). c \<le> 0xFF) \<longrightarrow>
                 length (filter is_upper_hex (hex entry)) = 2 * length (sendText st) \<and>
                 length (filter (\<lambda>u. u = SPACE) (hex entry)) = length (sendText st) - 1 \<and>
                 length (hex entry) = 2 * length (sendText st) + (length (sendText st) - 1) \<and>
                 (\<forall>i < length (hex entry).
                    if i mod 3 = 2 then hex entry ! i = SPACE
                    else is_upper_hex (hex entry ! i)) \<and>
                 hex_decode single_ok (hex entry) = Some (map unat (sendText st))))"
proof -
  let ?entry = "tx_entry now st'"
  have appended: "dataLog (fst (send_async (Inr ()) now st st')) = dataLog st' @ [?entry]"
    using assms by (rule send_async_success)
  have dir: "direction ?entry = js ''tx''"
    by (simp add: tx_entry_def)
  have payload: "sent_payloads (snd (send_async (Inr ()) now st st')) =
      [(sendText st @ newline_suffix (serial (config st)), hex_mode (serial (config st)))]"
    using assms by (simp add: sent_payloads_send_async send_payload_def)
  have fields: "data ?entry = sendText st \<and>
      hex ?entry = (if hex_mode (serial (config st)) then sendText st
                    else stringToHex (sendText st)) \<and>
      (\<not> hex_mode (serial (config st)) \<and> (\<forall>c\<in>set (sendText st). c \<le> 0xFF) \<longrightarrow>
         length (filter is_upper_hex (hex ?entry)) = 2 * length (sendText st) \<and>
         length (filter (\<lambda>u. u = SPACE) (hex ?entry)) = length (sendText st) - 1 \<and>
         length (hex ?entry) = 2 * length (sendText st) + (length (sendText st) - 1) \<and>
         (\<forall>i < length (hex ?entry).
            if i mod 3 = 2 then hex ?entry ! i = SPACE
            else is_upper_hex (hex ?entry ! i)) \<and>
         hex_decode single_ok (hex ?entry) = Some (map unat (sendText st)))"
    if same: "sendText st' = sendText st"
      "hex_mode (serial (config st')) = hex_mode (serial (config st))"
  proof (intro conjI impI)
    show "data ?entry = sendText st"
      using same by (simp add: tx_entry_def)
    show "hex ?entry = (if hex_mode (serial (config st)) then sendText st
                        else stringToHex (sendText st))"
      using same by (simp add: tx_entry_def)
  next
    assume textual: "\<not> hex_mode (serial (config st)) \<and> (\<forall>c\<in>set (sendText st). c \<le> 0xFF)"
    then have h: "hex ?entry = stringToHex (sendText st)"
      using same by (simp add: tx_entry_def)
    from textual have bytes: "\<forall>c\<in>set (sendText st). c \<le> 0xFF" by simp
    show "length (filter is_upper_hex (hex ?entry)) = 2 * length (sendText st)"
      unfolding h using bytes by (rule stringToHex_shape)
    show "length (filter (\<lambda>u. u = SPACE) (hex ?entry)) = length (sendText st) - 1"
      unfolding h using bytes by (rule stringToHex_shape)
    show "length (hex ?entry) = 2 * length (sendText st) + (length (sendText st) - 1)"
      unfolding h using bytes by (rule stringToHex_shape)
    show "\<forall>i < length (hex ?entry).
            if i mod 3 = 2 then hex ?entry ! i = SPACE else is_upper_hex (hex ?entry ! i)"
      unfolding h using bytes by (rule stringToHex_shape)
    show "hex_decode single_ok (hex ?entry) = Some (map unat (sendText st))"
      unfolding h using bytes by (rule hex_decode_stringToHex)
  qed
  from appended dir payload fields show ?thesis by blast
qed

text \<open>
  The instance of the spec: sending \<^verbatim>\<open>"48 65 6C 6C 6F"\<close> in hex mode appends one \<open>tx\<close>
  entry whose hex field is \<^verbatim>\<open>"48 65 6C 6C 6F"\<close>; here a poll tick has put an entry into the
  log while the call was pending.
\<close>

theorem send_tx_entry_witness:
  "connected hello_example \<and> sendText hello_example \<noteq> [] \<and>
   sendText hello_polled = sendText hello_example \<and>
   hex_mode (serial (config hello_polled)) \<and> hex_mode (serial (config hello_example)) \<and>
   (\<exists>entry. dataLog (fst (send_async (Inr ()) example_date hello_example hello_polled))
               = [rx_ok, entry] \<and>
      direction entry = js ''tx'' \<and> hex entry = js ''48 65 6C 6C 6F'')"
  using send_tx_entry [of hello_example example_date hello_polled]
  by (simp add: hello_polled_def hello_example_def hex_config_def initial_app_def
      default_config_def js_def) blast

text \<open>
  C1 as stated fails. In text mode with the default configuration the payload of the
  input \<^verbatim>\<open>"A"\<close> is \<^verbatim>\<open>"A\r\n"\<close>, whose rendering is \<^verbatim>\<open>"41 0D 0A"\<close>, and the entry's hex field
  is \<^verbatim>\<open>"41"\<close>. In hex mode the input \<^verbatim>\<open>"0a"\<close> stands for the byte 10, whose rendering is
  \<^verbatim>\<open>"0A"\<close>, and the entry's hex field is \<^verbatim>\<open>"0a"\<close>.
\<close>

theorem send_tx_entry_counterexample:
  "sent_payloads (snd (send (Inr ()) example_date text_example)) = [([0x41, 0x0D, 0x0A], False)] \<and>
   stringToHex [0x41, 0x0D, 0x0A] = js ''41 0D 0A'' \<and>
   map hex (dataLog (fst (send (Inr ()) example_date text_example))) = [js ''41''] \<and>
   sent_payloads (snd (send (Inr ()) example_date lower_hex_example)) = [(js ''0a'' @ [CR, LF], True)] \<and>
   hex_decode False (js ''0a'' @ [CR, LF]) = Some [10] \<and>
   stringToHex [0x0A] = js ''0A'' \<and>
   map hex (dataLog (fst (send (Inr ()) example_date lower_hex_example))) = [js ''0a'']"
  by (simp add: sent_payloads_send text_example_def lower_hex_example_def hex_config_def
      initial_app_def default_config_def
      send_payload_def newline_suffix_def js_def CR_def LF_def send_def send_async_phases
      send_resume_def tx_entry_def stringToHex_def hex_of_element_def padStart_def toUpperCase_def toString16_def
      charCodeAt0_def hex_digits.simps digit_char_def upper_unit_def SPACE_def
      is_high_surrogate_def is_low_surrogate_def hex_decode_def split_whitespace_def
      is_whitespace_def hex_value_def)

text \<open>
  C2. For a string \<open>b\<close> whose code units are all in 0..255, \<open>stringToHex b\<close> consists of
  \<open>2 * length b\<close> uppercase hexadecimal digits and \<open>length b - 1\<close> spaces (none for the
  empty string), \<open>3 * length b - 1\<close> code units in all; the spaces are exactly at the
  positions 2, 5, 8, ..., that is between consecutive pairs of digits; and decoding the
  result gives back the bytes of \<open>b\<close>, under either reading of the decoder.
\<close>

theorem stringToHex_roundtrip:
  assumes "\<forall>c\<in>set b. c \<le> 0xFF"
  shows "length (filter is_upper_hex (stringToHex b)) = 2 * length b \<and>
         length (filter (\<lambda>u. u = SPACE) (stringToHex b)) = length b - 1 \<and>
         length (stringToHex b) = 2 * length b + (length b - 1) \<and>
         (\<forall>i < length (stringToHex b).
            if i mod 3 = 2 then stringToHex b ! i = SPACE
            else is_upper_hex (stringToHex b ! i)) \<and>
         hex_decode single_ok (stringToHex b) = Some (map unat b)"
proof -
  have s: "stringToHex b = join [SPACE] (map hex_pair b)"
    using assms by (rule stringToHex_bytes)
  have p: "\<forall>t\<in>set (map hex_pair b). length t = 2 \<and> (\<forall>u\<in>set t. is_upper_hex u)"
    using assms hex_pair_shape by auto
  from filter_join_pairs [OF p]
  have counts: "length (filter is_upper_hex (stringToHex b)) = 2 * length b"
    "length (filter (\<lambda>u. u = SPACE) (stringToHex b)) = length b - 1"
    unfolding s by simp_all
  from p have "\<forall>t\<in>set (map hex_pair b). length t = 2" by blast
  from length_join_pairs [OF this]
  have total: "length (stringToHex b) = 2 * length b + (length b - 1)"
    unfolding s by simp
  have places: "\<forall>i < length (stringToHex b).
           if i mod 3 = 2 then stringToHex b ! i = SPACE else is_upper_hex (stringToHex b ! i)"
    unfolding s using nth_join_pairs [OF p] by blast
  have decoded: "hex_decode single_ok (stringToHex b) = Some (map unat b)"
    using assms by (rule hex_decode_stringToHex)
  from counts total places decoded show ?thesis by blast
qed

theorem stringToHex_roundtrip_witness:
  "stringToHex [0x48, 0x00, 0xFF] = js ''48 00 FF'' \<and>
   length (stringToHex [0x48, 0x00, 0xFF]) = 8 \<and>
   hex_decode False (stringToHex [0x48, 0x00, 0xFF]) = Some [72, 0, 255]"
proof -
  have "stringToHex [0x48, 0x00, 0xFF] = js ''48 00 FF''"
    by (simp add: stringToHex_def hex_of_element_def padStart_def toUpperCase_def
        toString16_def charCodeAt0_def hex_digits.simps digit_char_def upper_unit_def
        SPACE_def is_high_surrogate_def js_def)
  then show ?thesis
    using stringToHex_roundtrip [of "[0x48, 0x00, 0xFF]" False] by simp
qed

text \<open>
  C3. When the \<^verbatim>\<open>send_data\<close> call is rejected, \<open>send\<close> writes nothing: the state after
  it is the state in which the call returned, so \<open>sendText\<close>, \<open>dataLog\<close> and \<open>config\<close> are
  as they were and no entry is appended, and the only effect after the call is the
  alert that shows the reason to the user. With nothing else happening while the call
  is pending, the state after \<open>send\<close> is the state before it.
\<close>

theorem send_failure_changes_nothing:
  "send_resume (Inl e) now st' = (st', [Alert ([0x53D1, 0x9001, 0x5931, 0x8D25, 0x3A, 0x20] @ e)]) \<and>
   (connected st \<and> sendText st \<noteq> [] \<longrightarrow>
    send_async (Inl e) now st st' =
      (st', [Invoke (send_data (send_payload st) (hex_mode (serial (config st)))),
             Alert ([0x53D1, 0x9001, 0x5931, 0x8D25, 0x3A, 0x20] @ e)])) \<and>
   fst (send (Inl e) now st) = st \<and>
   (connected st \<and> sendText st \<noteq> [] \<longrightarrow>
    snd (send (Inl e) now st) =
      [Invoke (send_data (send_payload st) (hex_mode (serial (config st)))),
       Alert ([0x53D1, 0x9001, 0x5931, 0x8D25, 0x3A, 0x20] @ e)])"
proof -
  have resume: "send_resume (Inl e) now s = (s, [Alert ([0x53D1, 0x9001, 0x5931, 0x8D25, 0x3A, 0x20] @ e)])"
    for s
    by (simp add: send_resume_def)
  then show ?thesis
    by (simp add: send_def send_async_phases)
qed

text \<open>
  The instance of the spec: \<^verbatim>\<open>"AB CD E"\<close> in hex mode, which the decoder that wants pairs
  rejects.
\<close>

theorem send_failure_changes_nothing_witness:
  "connected odd_hex_example \<and> sendText odd_hex_example \<noteq> [] \<and>
   hex_decode False (send_payload odd_hex_example) = None \<and>
   fst (send (Inl (js ''InvalidHex'')) example_date odd_hex_example) = odd_hex_example \<and>
   dataLog (fst (send (Inl (js ''InvalidHex'')) example_date odd_hex_example)) = [] \<and>
   sent_payloads (snd (send (Inl (js ''InvalidHex'')) example_date odd_hex_example))
     = [(js ''AB CD E'' @ [CR, LF], True)]"
  using send_failure_changes_nothing [of "js ''InvalidHex''" example_date odd_hex_example
      odd_hex_example]
  by (simp add: odd_hex_example_def hex_config_def initial_app_def default_config_def
      send_payload_def newline_suffix_def js_def hex_decode_def split_whitespace_def
      is_whitespace_def hex_value_def CR_def LF_def)

text \<open>
  C4, as amended. In text mode the payload that \<open>send\<close> hands to \<^verbatim>\<open>send_data\<close> is the
  input text followed by the configured newline: \<^verbatim>\<open>"\r\n"\<close>, \<^verbatim>\<open>"\n"\<close> or \<^verbatim>\<open>"\r"\<close> when
  \<open>append_newline\<close> is set and \<open>newline_type\<close> is \<open>crlf\<close>, \<open>lf\<close> or \<open>cr\<close>, and nothing
  otherwise. Nothing is escaped and nothing else is added or removed. The payload is
  built from the state in which \<open>send\<close> is invoked, whatever happens while the call is
  pending.
\<close>

theorem send_text_payload:
  assumes "connected st" and "sendText st \<noteq> []" and "\<not> hex_mode (serial (config st))"
  shows "sent_payloads (snd (send r now st)) =
           [(sendText st @
             (if \<not> append_newline (serial (config st)) then []
              else if newline_type (serial (config st)) = js ''crlf'' then [CR, LF]
              else if newline_type (serial (config st)) = js ''lf'' then [LF]
              else if newline_type (serial (config st)) = js ''cr'' then [CR]
              else []), False)] \<and>
         sent_payloads (snd (send_async r now st st')) = sent_payloads (snd (send r now st))"
proof -
  have "sent_payloads (snd (send r now st)) = [(send_payload st, False)]"
    and "sent_payloads (snd (send_async r now st st')) = [(send_payload st, False)]"
    using assms by (simp_all add: sent_payloads_send sent_payloads_send_async)
  then show ?thesis
    by (simp add: send_payload_def newline_suffix_def)
qed

theorem send_text_payload_witness:
  "connected plain_example \<and> sendText plain_example = js ''A'' \<and>
   \<not> hex_mode (serial (config plain_example)) \<and>
   sent_payloads (snd (send (Inr ()) example_date plain_example)) = [(js ''A'', False)]"
  using send_text_payload [of plain_example "Inr ()" example_date plain_example]
  by (simp add: plain_example_def plain_config_def initial_app_def default_config_def js_def)

text \<open>
  C4 as stated fails with the default configuration: the input \<^verbatim>\<open>"A"\<close> is forwarded as
  \<^verbatim>\<open>"A\r\n"\<close>.
\<close>

theorem send_text_payload_counterexample:
  "connected text_example \<and> \<not> hex_mode (serial (config text_example)) \<and>
   sendText text_example = [0x41] \<and>
   sent_payloads (snd (send (Inr ()) example_date text_example)) = [([0x41, 0x0D, 0x0A], False)]"
  by (simp add: sent_payloads_send text_example_def initial_app_def default_config_def
      send_payload_def newline_suffix_def js_def CR_def LF_def)

text \<open>
  C5. Every action other than the explicit clearing extends the data log at its end
  (possibly by nothing), and so does every run of such actions; an action that empties
  a non-empty log is the clearing; the clearing leaves the log empty; disconnecting
  leaves it as it was.
\<close>

theorem dataLog_append_only:
  "(a \<noteq> ClearLog \<longrightarrow> (\<exists>es. dataLog (fst (step a st)) = dataLog st @ es)) \<and>
   (ClearLog \<notin> set as \<longrightarrow> (\<exists>es. dataLog (run as st) = dataLog st @ es)) \<and>
   (dataLog st \<noteq> [] \<and> dataLog (fst (step a st)) = [] \<longrightarrow> a = ClearLog) \<and>
   dataLog (fst (step ClearLog st)) = [] \<and>
   dataLog (fst (step (Disconnect r) st)) = dataLog st"
proof -
  have "dataLog st \<noteq> [] \<and> dataLog (fst (step a st)) = [] \<longrightarrow> a = ClearLog"
    using step_extends_dataLog [of a st] by (cases "a = ClearLog") auto
  then show ?thesis
    using step_extends_dataLog [of a st] run_extends_dataLog [of as st]
    by (simp add: clearLog_def)
qed

theorem dataLog_append_only_witness:
  "Disconnect (Inr ()) \<noteq> ClearLog \<and>
   ClearLog \<notin> set [PollTick (Inr [rx_ok]), Disconnect (Inr ())] \<and>
   dataLog (run [PollTick (Inr [rx_ok]), Disconnect (Inr ())] initial_app) = [rx_ok] \<and>
   dataLog (fst (step ClearLog (initial_app\<lparr>dataLog := [rx_ok]\<rparr>))) = []"
  using dataLog_append_only [of "Disconnect (Inr ())" "initial_app\<lparr>dataLog := [rx_ok]\<rparr>"
      "[PollTick (Inr [rx_ok]), Disconnect (Inr ())]" "Inr ()"]
  by (simp add: poll_tick_def initial_app_def)

text \<open>
  C6. A poll tick whose read returns no entries changes nothing of the state and has no
  effect beyond the read itself: no error is logged and no scrolling is requested. A
  tick that returns entries appends them in order, and the log changes in a tick only
  when the read returned at least one entry.
\<close>

theorem poll_tick_empty_read:
  "poll_tick (Inr []) st = (st, [Invoke read_data]) \<and>
   (\<forall>entries. dataLog (fst (poll_tick (Inr entries) st)) = dataLog st @ entries) \<and>
   (dataLog (fst (poll_tick r st)) \<noteq> dataLog st) = (\<exists>entries. r = Inr entries \<and> entries \<noteq> [])"
proof (cases r)
  case (Inl e)
  then show ?thesis by (simp add: poll_tick_def)
next
  case (Inr entries)
  then show ?thesis by (cases entries) (simp_all add: poll_tick_def)
qed

theorem poll_tick_empty_read_witness:
  "poll_tick (Inr []) (initial_app\<lparr>dataLog := [rx_ok]\<rparr>)
     = (initial_app\<lparr>dataLog := [rx_ok]\<rparr>, [Invoke read_data]) \<and>
   dataLog (fst (poll_tick (Inr [rx_ok]) initial_app)) = [rx_ok]"
  using poll_tick_empty_read [of "initial_app\<lparr>dataLog := [rx_ok]\<rparr>" "Inr []"]
    poll_tick_empty_read [of initial_app "Inr [rx_ok]"]
  by (simp add: initial_app_def)

text \<open>
  C7, as amended. When the enumeration call is rejected, \<open>refreshPorts\<close> does not abort:
  it logs the reason to the console and leaves the state, so also the list of ports,
  as it was. The list is then empty when no enumeration has succeeded before, as at
  start-up.
\<close>

theorem refreshPorts_failure:
  "refreshPorts (Inl e) st =
     (st, [Invoke list_ports,
           ConsoleError [0x83B7, 0x53D6, 0x4E32, 0x53E3, 0x5217, 0x8868, 0x5931, 0x8D25, 0x3A] e]) \<and>
   ports (fst (refreshPorts (Inl e) initial_app)) = []"
  by (simp add: refreshPorts_def initial_app_def)

theorem refreshPorts_failure_witness:
  "ports (fst (refreshPorts (Inl (js ''denied'')) (initial_app\<lparr>ports := [com3]\<rparr>))) = [com3]"
  using refreshPorts_failure [of "js ''denied''" "initial_app\<lparr>ports := [com3]\<rparr>"]
  by simp

text \<open>
  C7 as stated fails: after an enumeration that found a port, a rejected one leaves that
  port in the list.
\<close>

theorem refreshPorts_failure_counterexample:
  "ports (run [RefreshPorts (Inr [com3]), RefreshPorts (Inl (js ''denied''))] initial_app) = [com3] \<and>
   ports (run [RefreshPorts (Inr [com3]), RefreshPorts (Inl (js ''denied''))] initial_app) \<noteq> []"
  by (simp add: refreshPorts_def)

text \<open>
  C8. When loading the configuration is rejected, \<open>loadConfig\<close> logs the reason to the
  console and leaves the state as it was. At start-up the configuration is therefore
  still the built-in default (port empty, 115200 baud, 8 data bits, 1 stop bit, parity
  none, text mode), and mounting goes on to enumerate the ports.
\<close>

theorem loadConfig_failure_keeps_default:
  "loadConfig (Inl e) st =
     (st, [Invoke get_config, ConsoleError [0x52A0, 0x8F7D, 0x914D, 0x7F6E, 0x5931, 0x8D25, 0x3A] e]) \<and>
   config (fst (onMounted (Inl e) r_ports initial_app)) = default_config \<and>
   Invoke list_ports \<in> set (snd (onMounted (Inl e) r_ports initial_app)) \<and>
   port (serial default_config) = [] \<and> baud_rate (serial default_config) = 115200 \<and>
   data_bits (serial default_config) = 8 \<and> stop_bits (serial default_config) = 1 \<and>
   parity (serial default_config) = js ''none'' \<and> hex_mode (serial default_config) = False"
proof -
  have load: "loadConfig (Inl e) st =
     (st, [Invoke get_config, ConsoleError [0x52A0, 0x8F7D, 0x914D, 0x7F6E, 0x5931, 0x8D25, 0x3A] e])"
    for st
    by (simp add: loadConfig_def)
  have "config (fst (onMounted (Inl e) r_ports initial_app)) = default_config"
    and "Invoke list_ports \<in> set (snd (onMounted (Inl e) r_ports initial_app))"
    by (cases r_ports; simp add: onMounted_def load refreshPorts_def initial_app_def)+
  with load show ?thesis
    by (simp add: default_config_def)
qed

theorem loadConfig_failure_keeps_default_witness:
  "config (fst (loadConfig (Inl (js ''no such file'')) initial_app)) = default_config \<and>
   baud_rate (serial (config (fst (onMounted (Inl (js ''no such file'')) (Inr [com3]) initial_app))))
     = 115200"
  using loadConfig_failure_keeps_default [of "js ''no such file''" initial_app "Inr [com3]"]
  by (simp add: initial_app_def)

text \<open>
  C9. While disconnected, or with an empty input, \<open>send\<close> returns at its guard: the
  state is as it was and there is no effect at all, so no call to \<^verbatim>\<open>send_data\<close>, no
  entry, no change of \<open>sendText\<close>, \<open>dataLog\<close> or \<open>config\<close>. No call being made, there is
  no second phase.
\<close>

theorem send_noop_when_disconnected_or_empty:
  assumes "\<not> connected st \<or> sendText st = []"
  shows "send r now st = (st, []) \<and> send_async r now st st' = (st, []) \<and> send_call st = None"
  using assms
proof
  assume "\<not> connected st"
  then show ?thesis by (simp add: send_def send_async_def send_call_def)
next
  assume "sendText st = []"
  then show ?thesis by (simp add: send_def send_async_def send_call_def)
qed

theorem send_noop_when_disconnected_or_empty_witness:
  "\<not> connected (initial_app\<lparr>sendText := js ''hi''\<rparr>) \<and>
   send (Inr ()) example_date (initial_app\<lparr>sendText := js ''hi''\<rparr>)
     = (initial_app\<lparr>sendText := js ''hi''\<rparr>, []) \<and>
   sendText (initial_app\<lparr>connected := True\<rparr>) = [] \<and>
   send (Inr ()) example_date (initial_app\<lparr>connected := True\<rparr>)
     = (initial_app\<lparr>connected := True\<rparr>, [])"
  using send_noop_when_disconnected_or_empty [of "initial_app\<lparr>sendText := js ''hi''\<rparr>" "Inr ()"
      example_date "initial_app\<lparr>sendText := js ''hi''\<rparr>"]
    send_noop_when_disconnected_or_empty [of "initial_app\<lparr>connected := True\<rparr>" "Inr ()"
      example_date "initial_app\<lparr>connected := True\<rparr>"]
  by (simp add: initial_app_def)

text \<open>
  C10 fails on the code. In terminal mode, connected, the key \<^verbatim>\<open>"a"\<close> with Ctrl held is
  sent as the letter (code unit 0x61), not as the control code 0x01: the branch for
  keys of length one comes first. And the key \<^verbatim>\<open>"Control"\<close> itself, which arrives with
  Ctrl held, is sent as the control code 0x03, though it is none of the keys that
  should send anything.
\<close>

theorem ctrl_letter_sends_letter:
  "sent_payloads (snd (handleTerminalInput \<lparr>key = js ''a'', ctrlKey = True\<rparr> (Inr ()) terminal_example))
     = [([0x61], False)] \<and>
   sent_payloads (snd (handleTerminalInput \<lparr>key = js ''Control'', ctrlKey = True\<rparr> (Inr ()) terminal_example))
     = [([0x03], False)]"
  by (simp add: handleTerminalInput_def terminal_example_def terminal_config_def initial_app_def
      default_config_def terminal_char_def js_def toLowerCase_def lower_unit_def
      fromCharCode_def charCodeAt0_def)

theorem ctrl_letter_sends_letter_witness:
  "sent_payloads (snd (handleTerminalInput \<lparr>key = js ''a'', ctrlKey = True\<rparr> (Inr ()) terminal_example))
     \<noteq> [([0x01], False)]"
  using ctrl_letter_sends_letter by simp

end
